theory Spec2Isabelle
  imports Complex_Main "HOL-Library.Word"
begin

section \<open>Go runtime: errors, channels, select\<close>

text \<open>
  A Go \<open>error\<close> value. \<open>New s\<close> is \<open>errors.New(s)\<close>; \<open>Canceled\<close> and
  \<open>DeadlineExceeded\<close> are the two values \<open>ctx.Err()\<close> of package context returns once
  the context is done. A nil error is \<open>None :: error option\<close>.
\<close>

datatype error = New string | Canceled | DeadlineExceeded

text \<open>link/client.go:15-16 (package mqtt uses a variable of the same name).\<close>

definition ErrClientAlreadyClosed :: error where
  "ErrClientAlreadyClosed = New ''client is closed''"

text \<open>link/client.go:18-19.\<close>

definition ErrClientMessageTypeInvalid :: error where
  "ErrClientMessageTypeInvalid = New ''message type is invalid''"

text \<open>
  A channel \<open>make(chan T, n)\<close>: the buffered elements in FIFO order, the capacity, and the
  state of the receiving side. \<open>Parked\<close>: a goroutine is blocked receiving (the buffer is
  then empty). \<open>Handed x\<close>: a sender passed \<open>x\<close> directly to the parked receiver, which
  has not resumed yet; this is how a send proceeds on a channel of capacity 0.
\<close>

datatype 'a receiver = NoRecv | Parked | Handed 'a

record 'a chan =
  buf :: "'a list"
  cap :: nat
  rcv :: "'a receiver"

text \<open>\<open>make(chan T, n)\<close> panics when \<open>n\<close> is negative: \<open>None\<close>.\<close>

definition make_chan :: "int \<Rightarrow> 'a chan option" where
  "make_chan n = (if n < 0 then None else Some \<lparr>buf = [], cap = nat n, rcv = NoRecv\<rparr>)"

text \<open>
  \<open>ch <- x\<close>: \<open>Some\<close> the channel after the send when the send can proceed (a receiver is
  parked, or the buffer has room), \<open>None\<close> when it would block.
\<close>

definition chan_send :: "'a chan \<Rightarrow> 'a \<Rightarrow> 'a chan option" where
  "chan_send ch x =
     (if rcv ch = Parked then Some (ch\<lparr>rcv := Handed x\<rparr>)
      else if length (buf ch) < cap ch then Some (ch\<lparr>buf := buf ch @ [x]\<rparr>)
      else None)"

text \<open>
  \<open><-ch\<close>: the received element and the channel after it, or \<open>None\<close> when the receive
  would block. An element handed over directly was sent before anything now in the buffer.
\<close>

definition chan_recv :: "'a chan \<Rightarrow> ('a \<times> 'a chan) option" where
  "chan_recv ch =
     (case rcv ch of
        Handed x \<Rightarrow> Some (x, ch\<lparr>rcv := NoRecv\<rparr>)
      | _ \<Rightarrow> (case buf ch of
                [] \<Rightarrow> None
              | x # xs \<Rightarrow> Some (x, ch\<lparr>buf := xs, rcv := NoRecv\<rparr>)))"

text \<open>
  A \<open>select\<close> statement without default: each case is \<open>Some\<close> of its outcome when its
  communication can proceed and \<open>None\<close> otherwise. Go chooses one of the cases that can
  proceed by a uniform pseudo-random selection, so every element of the result is a
  possible outcome; the empty list means that the goroutine blocks.
\<close>

definition select :: "'a option list \<Rightarrow> 'a list" where
  "select cases = List.map_filter (\<lambda>c. c) cases"

section \<open>Collaborators that are not among the sources\<close>

text \<open>
  Modelled from the spec: \<open>utils.Tomb\<close> (the Lifecycle Controller of section 4.5) is not
  among the sources. \<open>Go\<close> starts the worker, \<open>Kill\<close> signals it to stop (the channel
  \<open>Dying()\<close> is closed from then on), \<open>Wait\<close> blocks until the worker has exited and
  returns the stored result; \<open>Done\<close> is the worker returning.
\<close>

record Tomb =
  dying :: bool
  alive :: bool
  reason :: "error option"

definition Tomb_zero :: Tomb where
  "Tomb_zero = \<lparr>dying = False, alive = False, reason = None\<rparr>"

definition Go :: "Tomb \<Rightarrow> Tomb" where
  "Go t = t\<lparr>alive := True\<rparr>"

definition Kill :: "Tomb \<Rightarrow> error option \<Rightarrow> Tomb" where
  "Kill t e = t\<lparr>dying := True, reason := (case reason t of None \<Rightarrow> e | Some r \<Rightarrow> Some r)\<rparr>"

definition Done :: "Tomb \<Rightarrow> error option \<Rightarrow> Tomb" where
  "Done t e = (Kill t e)\<lparr>alive := False\<rparr>"

definition Wait :: "Tomb \<Rightarrow> error option option" where
  "Wait t = (if alive t then None else Some (reason t))"

text \<open>
  \<open>time.Duration\<close> counts nanoseconds; \<open>time.Time\<close> is an instant in nanoseconds, its zero
  value (\<open>IsZero\<close>) is \<open>None :: instant option\<close>.
\<close>

type_synonym duration = int
type_synonym instant = int

definition Second :: duration where
  "Second = 1000000000"

text \<open>
  Modelled from the spec: the Backoff State of section 3, \<open>{minimum duration, maximum
  duration, growth factor, attempt count}\<close>. Package github.com/jpillora/backoff is not
  among the sources. \<open>Duration\<close> returns the delay for the current attempt and counts the
  attempt, \<open>Reset\<close> sets the count to zero. The delay itself is computed there in
  floating point; it is the parameter \<open>for_attempt\<close>. The literal \<open>1.6\<close> is kept as the
  rational 8/5.
\<close>

record Backoff =
  Min_bf :: duration
  Max_bf :: duration
  Factor :: rat
  attempt :: nat

definition Duration :: "(Backoff \<Rightarrow> duration) \<Rightarrow> Backoff \<Rightarrow> duration \<times> Backoff" where
  "Duration for_attempt b = (for_attempt b, b\<lparr>attempt := attempt b + 1\<rparr>)"

definition Reset :: "Backoff \<Rightarrow> Backoff" where
  "Reset b = b\<lparr>attempt := 0\<rparr>"

definition Attempt :: "Backoff \<Rightarrow> nat" where
  "Attempt b = attempt b"

section \<open>Configuration, packets and the Client\<close>

text \<open>
  Modelled from the spec: the declarations of \<open>utils.Certificate\<close>, \<open>mqtt.ClientConfig\<close>
  and \<open>link.ClientConfig\<close> are not among the sources. The records hold the fields the
  code reads: \<open>Interval\<close> and \<open>Certificate\<close> in both packages, \<open>BufferSize\<close> and
  \<open>ClientID\<close> in mqtt, \<open>MaxCacheMessages\<close>, \<open>MaxMessageSize\<close>, \<open>Address\<close>,
  \<open>Username\<close> and \<open>Password\<close> in link.
\<close>

record Certificate =
  Key :: string
  Cert :: string
  Name :: string
  InsecureSkipVerify :: bool

record ClientConfig =
  Interval :: duration
  Certificate :: Certificate

record mqtt_ClientConfig = ClientConfig +
  BufferSize :: int
  ClientID :: string

record link_ClientConfig = ClientConfig +
  MaxCacheMessages :: int
  MaxMessageSize :: int
  Address :: string
  Username :: string
  Password :: string

text \<open>
  Modelled from the spec: section 6 lists minimum, maximum and factor for backoff among the
  recognised options. The code reads \<open>Interval\<close> alone; this extension of the mqtt
  configuration carries a minimum and a factor besides.
\<close>

record spec_ClientConfig = mqtt_ClientConfig +
  Minimum :: duration
  Growth :: rat

text \<open>
  Modelled from the spec: the packet declarations of package mqtt are not among the
  sources. A \<open>Publish\<close> has the six fields mqtt/client.go:58-63 assign; \<open>ID\<close> and \<open>QOS\<close>
  are compared with 0 and otherwise left abstract. \<open>NewPublish\<close> is the zero packet.
\<close>

record 'q Message =
  QOS :: 'q
  Topic :: string
  Payload :: "8 word list"
  Retain :: bool

record ('i, 'q) Publish =
  ID :: 'i
  Dup :: bool
  Message :: "'q Message"

datatype ('i, 'q, 'x) Packet = PublishPkt "('i, 'q) Publish" | OtherPkt 'x

definition NewPublish :: "('i::zero, 'q::zero) Publish" where
  "NewPublish = \<lparr>ID = 0, Dup = False,
                  Message = \<lparr>QOS = 0, Topic = [], Payload = [], Retain = False\<rparr>\<rparr>"

text \<open>
  The Client struct of both packages (mqtt/client.go:14-22, link/client.go:22-30): the
  configuration, the optional Observer (\<open>None\<close> is nil), the outbound queue and the tomb.
  The mqtt Client has the TLS configuration and the ID counter besides, the link Client
  its connection. The logger is left out.
\<close>

record ('c, 'o, 'm) Client =
  cfg :: 'c
  obs :: "'o option"
  cache :: "'m chan"
  tomb :: Tomb

record ('c, 'o, 'm, 't, 'n) mqtt_Client = "('c, 'o, 'm) Client" +
  tls :: "'t option"
  ids :: 'n

record ('c, 'o, 'm, 'k) link_Client = "('c, 'o, 'm) Client" +
  conn :: 'k

datatype failure = Error error | Panic

text \<open>
  mqtt/client.go:25-44. \<open>NewTLSConfigClient\<close> (package utils) and \<open>NewCounter\<close> are not
  among the sources and are parameters: \<open>NewTLSConfigClient\<close> returns an error or a
  TLS configuration, which may be nil. \<open>c.tomb.Go(c.connecting)\<close> starts the worker.
\<close>

definition mqtt_NewClient ::
  "(Certificate \<Rightarrow> error + 't option) \<Rightarrow> 'n \<Rightarrow> mqtt_ClientConfig \<Rightarrow> 'o option
    \<Rightarrow> failure + (mqtt_ClientConfig, 'o, 'm, 't, 'n) mqtt_Client" where
  "mqtt_NewClient NewTLSConfigClient NewCounter cc ob =
     (case (if Key (Certificate cc) \<noteq> [] \<or> Cert (Certificate cc) \<noteq> []
            then NewTLSConfigClient (Certificate cc) else Inr None) of
        Inl err \<Rightarrow> Inl (Error err)
      | Inr tc \<Rightarrow>
          (case make_chan (BufferSize cc) of
             None \<Rightarrow> Inl Panic
           | Some ch \<Rightarrow>
               Inr \<lparr>cfg = cc, obs = ob, cache = ch, tomb = Go Tomb_zero,
                    tls = tc, ids = NewCounter\<rparr>))"

text \<open>
  link/client.go:33-48. \<open>NewClientConn\<close> (lines 160-192) assembles the dial options and
  calls \<open>grpc.Dial\<close>; its result is a parameter.
\<close>

definition link_NewClient ::
  "(link_ClientConfig \<Rightarrow> error + 'k) \<Rightarrow> link_ClientConfig \<Rightarrow> 'o option
    \<Rightarrow> failure + (link_ClientConfig, 'o, 'm, 'k) link_Client" where
  "link_NewClient NewClientConn cc ob =
     (case NewClientConn cc of
        Inl err \<Rightarrow> Inl (Error err)
      | Inr cn \<Rightarrow>
          (case make_chan (MaxCacheMessages cc) of
             None \<Rightarrow> Inl Panic
           | Some ch \<Rightarrow>
               Inr \<lparr>cfg = cc, obs = ob, cache = ch, tomb = Go Tomb_zero, conn = cn\<rparr>))"

section \<open>Sending\<close>

text \<open>
  \<open>Send\<close>, mqtt/client.go:71-78 and link/client.go:61-68 (the same select in both). Each
  outcome is the returned error (\<open>None\<close> is nil) and the Client after the call.
\<close>

definition Send ::
  "('c, 'o, 'm, 'z) Client_scheme \<Rightarrow> 'm
    \<Rightarrow> (error option \<times> ('c, 'o, 'm, 'z) Client_scheme) list" where
  "Send c pkt =
     select
       [map_option (\<lambda>ch. (None, c\<lparr>cache := ch\<rparr>)) (chan_send (cache c) pkt),
        if dying (tomb c) then Some (Some ErrClientAlreadyClosed, c) else None]"

text \<open>
  \<open>SendContext\<close>, link/client.go:71-80. The context is given by \<open>ctx.Err()\<close>: \<open>None\<close>
  while \<open>ctx.Done()\<close> is open, the error once it is closed.
\<close>

definition SendContext ::
  "('c, 'o, 'm, 'z) Client_scheme \<Rightarrow> error option \<Rightarrow> 'm
    \<Rightarrow> (error option \<times> ('c, 'o, 'm, 'z) Client_scheme) list" where
  "SendContext c ctx msg =
     select
       [map_option (\<lambda>ch. (None, c\<lparr>cache := ch\<rparr>)) (chan_send (cache c) msg),
        map_option (\<lambda>e. (Some e, c)) ctx,
        if dying (tomb c) then Some (Some ErrClientAlreadyClosed, c) else None]"

text \<open>
  \<open>Close\<close>, mqtt/client.go:81-87 and link/client.go:83-91, in its two steps:
  \<open>c.tomb.Kill(nil)\<close>, and the return of \<open>c.tomb.Wait()\<close> with the stored result,
  \<open>None\<close> as long as the worker has not returned and \<open>Wait\<close> blocks. (The link Client
  closes its connection before it returns the result.)
\<close>

definition Close_kill :: "('c, 'o, 'm, 'z) Client_scheme \<Rightarrow> ('c, 'o, 'm, 'z) Client_scheme" where
  "Close_kill c = c\<lparr>tomb := Kill (tomb c) None\<rparr>"

definition Close_wait :: "('c, 'o, 'm, 'z) Client_scheme \<Rightarrow> error option option" where
  "Close_wait c = Wait (tomb c)"

text \<open>
  \<open>Publish\<close>, mqtt/client.go:56-68. \<open>NextID\<close> of the counter (not among the sources) is a
  parameter: it returns an ID and the counter after the call.
\<close>

definition Publish ::
  "('n \<Rightarrow> 'i \<times> 'n) \<Rightarrow> ('c, 'o, ('i::zero, 'q::zero, 'x) Packet, 't, 'n, 'z) mqtt_Client_scheme
    \<Rightarrow> 'q \<Rightarrow> string \<Rightarrow> 8 word list \<Rightarrow> 'i \<Rightarrow> bool \<Rightarrow> bool
    \<Rightarrow> (error option \<times> ('c, 'o, ('i, 'q, 'x) Packet, 't, 'n, 'z) mqtt_Client_scheme) list" where
  "Publish NextID c qos topic payload pid retain dup =
     (let publish = NewPublish;
          publish = publish\<lparr>ID := pid\<rparr>;
          publish = publish\<lparr>Dup := dup\<rparr>;
          publish = publish\<lparr>Message := (Message publish)\<lparr>QOS := qos\<rparr>\<rparr>;
          publish = publish\<lparr>Message := (Message publish)\<lparr>Topic := topic\<rparr>\<rparr>;
          publish = publish\<lparr>Message := (Message publish)\<lparr>Payload := payload\<rparr>\<rparr>;
          publish = publish\<lparr>Message := (Message publish)\<lparr>Retain := retain\<rparr>\<rparr>;
          (publish, c) =
            (if qos \<noteq> 0 \<and> pid = 0
             then (publish\<lparr>ID := fst (NextID (ids c))\<rparr>, c\<lparr>ids := snd (NextID (ids c))\<rparr>)
             else (publish, c))
      in Send c (PublishPkt publish))"

section \<open>Observer dispatch\<close>

text \<open>
  An Observer is given by what its callbacks return; \<open>OnError\<close> and \<open>OnErr\<close> return
  nothing. What the helpers do is recorded in a trace: a callback of the Observer was
  invoked (\<open>Obs_message\<close> for \<open>OnPublish\<close> and \<open>OnMsg\<close>, \<open>Obs_ack\<close> for \<open>OnPuback\<close> and
  \<open>OnAck\<close>, \<open>Obs_error\<close> for \<open>OnError\<close> and \<open>OnErr\<close>), an error was logged, a stream was
  closed.
\<close>

record ('p, 'a) mqtt_Observer =
  OnPublish :: "'p \<Rightarrow> error option"
  OnPuback :: "'a \<Rightarrow> error option"

record 'm link_Observer =
  OnMsg :: "'m \<Rightarrow> error option"
  OnAck :: "'m \<Rightarrow> error option"

datatype ('p, 'a, 's) effect =
  Obs_message 'p | Obs_ack 'a | Obs_error error | Log_error string error | Stream_close 's

text \<open>mqtt/client.go:145-150.\<close>

definition onPublish ::
  "('c, ('p, 'a) mqtt_Observer, 'm, 'z) Client_scheme \<Rightarrow> 'p \<Rightarrow> ('p, 'a, 's) effect list
    \<Rightarrow> error option \<times> ('p, 'a, 's) effect list" where
  "onPublish c pkt tr =
     (case obs c of None \<Rightarrow> (None, tr) | Some ob \<Rightarrow> (OnPublish ob pkt, tr @ [Obs_message pkt]))"

text \<open>mqtt/client.go:152-157.\<close>

definition onPuback ::
  "('c, ('p, 'a) mqtt_Observer, 'm, 'z) Client_scheme \<Rightarrow> 'a \<Rightarrow> ('p, 'a, 's) effect list
    \<Rightarrow> error option \<times> ('p, 'a, 's) effect list" where
  "onPuback c pkt tr =
     (case obs c of None \<Rightarrow> (None, tr) | Some ob \<Rightarrow> (OnPuback ob pkt, tr @ [Obs_ack pkt]))"

text \<open>mqtt/client.go:168-174.\<close>

definition onError ::
  "('c, 'o, 'm, 'z) Client_scheme \<Rightarrow> string \<Rightarrow> error option \<Rightarrow> ('p, 'a, 's) effect list
    \<Rightarrow> ('p, 'a, 's) effect list" where
  "onError c msg err tr =
     (if obs c = None \<or> err = None then tr
      else tr @ [Log_error msg (the err), Obs_error (the err)])"

text \<open>link/client.go:138-143.\<close>

definition onMsg ::
  "('c, 'm link_Observer, 'm, 'z) Client_scheme \<Rightarrow> 'm \<Rightarrow> ('m, 'm, 's) effect list
    \<Rightarrow> error option \<times> ('m, 'm, 's) effect list" where
  "onMsg c msg tr =
     (case obs c of None \<Rightarrow> (None, tr) | Some ob \<Rightarrow> (OnMsg ob msg, tr @ [Obs_message msg]))"

text \<open>link/client.go:145-150.\<close>

definition onAck ::
  "('c, 'm link_Observer, 'm, 'z) Client_scheme \<Rightarrow> 'm \<Rightarrow> ('m, 'm, 's) effect list
    \<Rightarrow> error option \<times> ('m, 'm, 's) effect list" where
  "onAck c msg tr =
     (case obs c of None \<Rightarrow> (None, tr) | Some ob \<Rightarrow> (OnAck ob msg, tr @ [Obs_ack msg]))"

text \<open>link/client.go:152-158.\<close>

definition onErr ::
  "('c, 'o, 'm, 'z) Client_scheme \<Rightarrow> string \<Rightarrow> error option \<Rightarrow> ('p, 'a, 's) effect list
    \<Rightarrow> ('p, 'a, 's) effect list" where
  "onErr c msg err tr =
     (if obs c = None \<or> err = None then tr
      else tr @ [Log_error msg (the err), Obs_error (the err)])"

section \<open>The supervisor loop\<close>

text \<open>
  The local variables of \<open>connecting\<close> (mqtt/client.go:93-103, link/client.go:97-107;
  \<open>err\<close> is dead after each pass). \<open>nxt\<close> is the variable \<open>next\<close>, \<open>timer\<close> the duration
  the timer was last set to.
\<close>

record ('m, 's) locals =
  curr :: "'m option"
  stream :: "'s option"
  nxt :: "instant option"
  timer :: duration
  bf :: Backoff

definition connecting_init :: "'y ClientConfig_scheme \<Rightarrow> ('m, 's) locals" where
  "connecting_init cc =
     \<lparr>curr = None, stream = None, nxt = None, timer = 0,
      bf = \<lparr>Min_bf = Second, Max_bf = Interval cc, Factor = 8 / 5, attempt = 0\<rparr>\<rparr>"

text \<open>
  What the environment decides in one pass of the loop: the reading of \<open>time.Now()\<close> at
  the top, which case the select takes, and for the timer case the reading of
  \<open>time.Now()\<close> before the connect and what \<open>c.connect()\<close> (not among the sources)
  returns, an error or a stream. When the timer fires is up to the environment as well:
  the timer case can be taken in every pass.
\<close>

datatype 's turn = Dying_fired instant | Timer_fired instant instant "error + 's"

datatype control = Return_nil | Continue | Connected

text \<open>
  One pass of the loop up to the call of \<open>stream.sending\<close>, mqtt/client.go:106-129 and
  link/client.go:110-133. \<open>report\<close> is \<open>c.onError\<close> in mqtt and \<open>c.onErr\<close> in link.
\<close>

definition connecting_iter ::
  "(Backoff \<Rightarrow> duration) \<Rightarrow> (string \<Rightarrow> error option \<Rightarrow> ('p, 'a, 's) effect list \<Rightarrow> ('p, 'a, 's) effect list)
    \<Rightarrow> 's turn \<Rightarrow> ('m, 's) locals \<times> ('p, 'a, 's) effect list
    \<Rightarrow> control \<times> ('m, 's) locals \<times> ('p, 'a, 's) effect list" where
  "connecting_iter for_attempt report t = (\<lambda>(l, tr).
     (let now = (case t of Dying_fired n \<Rightarrow> n | Timer_fired n _ _ \<Rightarrow> n);
          l = (case nxt l of None \<Rightarrow> l | Some n \<Rightarrow> l\<lparr>timer := n - now\<rparr>);
          (l, tr) = (case stream l of
                       None \<Rightarrow> (l, tr)
                     | Some s \<Rightarrow> (l\<lparr>stream := None\<rparr>, tr @ [Stream_close s]))
      in case t of
           Dying_fired _ \<Rightarrow> (Return_nil, l, tr)
         | Timer_fired _ now r \<Rightarrow>
             (let (d, b) = Duration for_attempt (bf l);
                  l = l\<lparr>nxt := Some (now + d), bf := b\<rparr>
              in case r of
                   Inl err \<Rightarrow> (Continue, l\<lparr>stream := None\<rparr>, report ''failed to connect'' (Some err) tr)
                 | Inr s \<Rightarrow> (Connected, l\<lparr>stream := Some s, bf := Reset (bf l)\<rparr>, tr))))"

section \<open>The running system\<close>

text \<open>
  The Client together with its worker: where the worker is (in the loop of
  \<open>connecting\<close>, inside \<open>stream.sending\<close>, or returned), the locals of \<open>connecting\<close>, the
  message the session has in flight, the trace of effects, the frames written to the
  transport, and the messages the sessions received from the queue.
\<close>

datatype location = Looping | Sending | Stopped

record ('c, 'o, 'm, 'z, 's, 'p, 'a) world =
  client :: "('c, 'o, 'm, 'z) Client_scheme"
  loc :: location
  vars :: "('m, 's) locals"
  inflight :: "'m option"
  effects :: "('p, 'a, 's) effect list"
  wire :: "'m list"
  pulled :: "'m list"

text \<open>The state \<open>NewClient\<close> leaves: the worker is about to enter the loop.\<close>

definition start ::
  "('y ClientConfig_scheme, 'o, 'm, 'z) Client_scheme
    \<Rightarrow> ('y ClientConfig_scheme, 'o, 'm, 'z, 's, 'p, 'a) world" where
  "start c = \<lparr>client = c, loc = Looping, vars = connecting_init (cfg c), inflight = None,
              effects = [], wire = [], pulled = []\<rparr>"

text \<open>
  Modelled from the spec: \<open>stream.sending\<close> is not among the sources. Section 4.3: the
  send loop pulls the next message, first the carried-over in-flight message if one
  exists, otherwise the queue head, writes it to the transport and records it as current
  until the write completes; a write failure ends the session without clearing it. The
  in-flight message, if any, is what \<open>sending\<close> returns.
\<close>

definition sending_pull ::
  "('c, 'o, 'm, 'z, 's, 'p, 'a) world \<Rightarrow> ('c, 'o, 'm, 'z, 's, 'p, 'a) world option" where
  "sending_pull w =
     (if loc w = Sending \<and> inflight w = None
      then (case chan_recv (cache (client w)) of
              None \<Rightarrow> None
            | Some (m, ch) \<Rightarrow>
                Some (w\<lparr>client := (client w)\<lparr>cache := ch\<rparr>, inflight := Some m,
                        pulled := pulled w @ [m]\<rparr>))
      else None)"

definition sending_park ::
  "('c, 'o, 'm, 'z, 's, 'p, 'a) world \<Rightarrow> ('c, 'o, 'm, 'z, 's, 'p, 'a) world option" where
  "sending_park w =
     (if loc w = Sending \<and> inflight w = None \<and> chan_recv (cache (client w)) = None
      then Some (w\<lparr>client := (client w)\<lparr>cache := (cache (client w))\<lparr>rcv := Parked\<rparr>\<rparr>\<rparr>)
      else None)"

text \<open>Line 130 of mqtt/client.go (134 of link/client.go): \<open>curr = stream.sending(curr)\<close> returns.\<close>

definition sending_return ::
  "('c, 'o, 'm, 'z, 's, 'p, 'a) world \<Rightarrow> ('c, 'o, 'm, 'z, 's, 'p, 'a) world" where
  "sending_return w =
     w\<lparr>client := (client w)\<lparr>cache := (cache (client w))\<lparr>rcv := NoRecv\<rparr>\<rparr>,
       loc := Looping, vars := (vars w)\<lparr>curr := inflight w\<rparr>, inflight := None\<rparr>"

definition sending_write ::
  "bool \<Rightarrow> ('c, 'o, 'm, 'z, 's, 'p, 'a) world \<Rightarrow> ('c, 'o, 'm, 'z, 's, 'p, 'a) world option" where
  "sending_write ok w =
     (if loc w = Sending
      then (case inflight w of
              None \<Rightarrow> None
            | Some m \<Rightarrow>
                if ok then Some (w\<lparr>wire := wire w @ [m], inflight := None\<rparr>)
                else Some (sending_return w))
      else None)"

definition sending_finish ::
  "('c, 'o, 'm, 'z, 's, 'p, 'a) world \<Rightarrow> ('c, 'o, 'm, 'z, 's, 'p, 'a) world option" where
  "sending_finish w =
     (if loc w = Sending \<and> (case rcv (cache (client w)) of Handed _ \<Rightarrow> False | _ \<Rightarrow> True)
      then Some (sending_return w) else None)"

text \<open>
  One pass of the worker through the loop. The case \<open><-c.tomb.Dying()\<close> can be taken only
  once the tomb is dying; \<open>connecting\<close> then returns nil and the worker is done. After a
  successful connect the worker enters \<open>stream.sending(curr)\<close>.
\<close>

definition worker_pass ::
  "(Backoff \<Rightarrow> duration)
    \<Rightarrow> (('c, 'o, 'm, 'z) Client_scheme \<Rightarrow> string \<Rightarrow> error option \<Rightarrow> ('p, 'a, 's) effect list \<Rightarrow> ('p, 'a, 's) effect list)
    \<Rightarrow> 's turn \<Rightarrow> ('c, 'o, 'm, 'z, 's, 'p, 'a) world \<Rightarrow> ('c, 'o, 'm, 'z, 's, 'p, 'a) world option" where
  "worker_pass for_attempt report t w =
     (if loc w \<noteq> Looping
         \<or> (case t of Dying_fired _ \<Rightarrow> \<not> dying (tomb (client w)) | Timer_fired _ _ _ \<Rightarrow> False)
      then None
      else (case connecting_iter for_attempt (report (client w)) t (vars w, effects w) of
              (Return_nil, l, tr) \<Rightarrow>
                Some (w\<lparr>client := (client w)\<lparr>tomb := Done (tomb (client w)) None\<rparr>,
                        loc := Stopped, vars := l, effects := tr\<rparr>)
            | (Continue, l, tr) \<Rightarrow> Some (w\<lparr>vars := l, effects := tr\<rparr>)
            | (Connected, l, tr) \<Rightarrow>
                Some (w\<lparr>loc := Sending, vars := l, effects := tr, inflight := curr l\<rparr>)))"

text \<open>
  The steps of the system. A producer's \<open>Send\<close> or \<open>SendContext\<close> returns with the
  \<open>n\<close>-th of its possible outcomes; a caller of \<open>Close\<close> kills the tomb, and later
  returns from \<open>c.tomb.Wait()\<close>; the worker makes a
  pass of its loop; the session pulls, parks, writes or ends. \<open>None\<close>: the step cannot
  be taken in this state.
\<close>

datatype ('m, 's) action =
    Call_Send 'm nat
  | Call_SendContext "error option" 'm nat
  | Call_Kill
  | Return_Wait
  | Pass "'s turn"
  | Pull
  | Park
  | Write bool
  | Finish

definition step ::
  "(Backoff \<Rightarrow> duration)
    \<Rightarrow> (('c, 'o, 'm, 'z) Client_scheme \<Rightarrow> string \<Rightarrow> error option \<Rightarrow> ('p, 'a, 's) effect list \<Rightarrow> ('p, 'a, 's) effect list)
    \<Rightarrow> ('m, 's) action \<Rightarrow> ('c, 'o, 'm, 'z, 's, 'p, 'a) world \<Rightarrow> ('c, 'o, 'm, 'z, 's, 'p, 'a) world option" where
  "step for_attempt report a w =
     (case a of
        Call_Send m n \<Rightarrow>
          (if n < length (Send (client w) m)
           then Some (w\<lparr>client := snd (Send (client w) m ! n)\<rparr>) else None)
      | Call_SendContext ctx m n \<Rightarrow>
          (if n < length (SendContext (client w) ctx m)
           then Some (w\<lparr>client := snd (SendContext (client w) ctx m ! n)\<rparr>) else None)
      | Call_Kill \<Rightarrow> Some (w\<lparr>client := Close_kill (client w)\<rparr>)
      | Return_Wait \<Rightarrow> (case Close_wait (client w) of None \<Rightarrow> None | Some _ \<Rightarrow> Some w)
      | Pass t \<Rightarrow> worker_pass for_attempt report t w
      | Pull \<Rightarrow> sending_pull w
      | Park \<Rightarrow> sending_park w
      | Write ok \<Rightarrow> sending_write ok w
      | Finish \<Rightarrow> sending_finish w)"

fun run ::
  "(Backoff \<Rightarrow> duration)
    \<Rightarrow> (('c, 'o, 'm, 'z) Client_scheme \<Rightarrow> string \<Rightarrow> error option \<Rightarrow> ('p, 'a, 's) effect list \<Rightarrow> ('p, 'a, 's) effect list)
    \<Rightarrow> ('m, 's) action list \<Rightarrow> ('c, 'o, 'm, 'z, 's, 'p, 'a) world \<Rightarrow> ('c, 'o, 'm, 'z, 's, 'p, 'a) world option" where
  "run for_attempt report [] w = Some w"
| "run for_attempt report (a # as) w =
     (case step for_attempt report a w of
        None \<Rightarrow> None
      | Some w' \<Rightarrow> run for_attempt report as w')"

text \<open>Which steps are connect attempts that failed, and which are connect attempts that succeeded.\<close>

definition is_failed :: "('m, 's) action \<Rightarrow> bool" where
  "is_failed a = (case a of Pass (Timer_fired _ _ (Inl _)) \<Rightarrow> True | _ \<Rightarrow> False)"

definition is_connected :: "('m, 's) action \<Rightarrow> bool" where
  "is_connected a = (case a of Pass (Timer_fired _ _ (Inr _)) \<Rightarrow> True | _ \<Rightarrow> False)"

text \<open>
  The message the worker holds: the one in flight while it is inside \<open>stream.sending\<close>,
  the variable \<open>curr\<close> of \<open>connecting\<close> otherwise.
\<close>

definition pending :: "('c, 'o, 'm, 'z, 's, 'p, 'a) world \<Rightarrow> 'm option" where
  "pending w = (if loc w = Sending then inflight w else curr (vars w))"

section \<open>Invariant of the running system\<close>

text \<open>
  A Client as \<open>NewClient\<close> returns it: the tomb has one worker, nothing is buffered and
  nobody receives.
\<close>

definition fresh :: "('c, 'o, 'm, 'z) Client_scheme \<Rightarrow> bool" where
  "fresh c \<longleftrightarrow> tomb c = Go Tomb_zero \<and> buf (cache c) = [] \<and> rcv (cache c) = NoRecv"

text \<open>
  What holds in every state of the system: the buffer is within the capacity; a receiver
  is parked or handed a message only while the worker is in \<open>stream.sending\<close> with nothing
  in flight, and parked only on an empty buffer; the worker is alive until it has returned,
  and it returns only from a dying tomb.
\<close>

definition inv :: "('c, 'o, 'm, 'z, 's, 'p, 'a) world \<Rightarrow> bool" where
  "inv w \<longleftrightarrow>
     length (buf (cache (client w))) \<le> cap (cache (client w))
     \<and> (loc w \<noteq> Sending \<longrightarrow> rcv (cache (client w)) = NoRecv)
     \<and> (rcv (cache (client w)) \<noteq> NoRecv \<longrightarrow> inflight w = None)
     \<and> (rcv (cache (client w)) = Parked \<longrightarrow> buf (cache (client w)) = [])
     \<and> (alive (tomb (client w)) \<longleftrightarrow> loc w \<noteq> Stopped)
     \<and> (loc w = Stopped \<longrightarrow> dying (tomb (client w)))"

section \<open>Example inputs\<close>

text \<open>A Client without Observer, and one with an Observer whose callbacks return nil.\<close>

definition silent :: "(unit, 'o, 'm) Client" where
  "silent = \<lparr>cfg = (), obs = None, cache = \<lparr>buf = [], cap = 1, rcv = NoRecv\<rparr>,
             tomb = Go Tomb_zero\<rparr>"

definition watched :: "(unit, (nat, nat) mqtt_Observer, 'm) Client" where
  "watched = silent\<lparr>obs := Some \<lparr>OnPublish = (\<lambda>_. None), OnPuback = (\<lambda>_. None)\<rparr>\<rparr>"

text \<open>An mqtt Client whose ID counter is a number; \<open>count\<close> hands out the number and adds one.\<close>

definition numbered :: "(unit, unit, (nat, nat, unit) Packet, unit, nat) mqtt_Client" where
  "numbered = \<lparr>cfg = (), obs = None, cache = \<lparr>buf = [], cap = 1, rcv = NoRecv\<rparr>,
               tomb = Go Tomb_zero, tls = None, ids = 5\<rparr>"

definition count :: "nat \<Rightarrow> nat \<times> nat" where
  "count n = (n, n + 1)"

text \<open>
  An mqtt configuration with room for one packet and a link configuration with room for
  two, and the Clients \<open>NewClient\<close> returns for them.
\<close>

definition ex_cfg :: mqtt_ClientConfig where
  "ex_cfg = \<lparr>Interval = 10 * Second,
             Certificate = \<lparr>Key = [], Cert = [], Name = [], InsecureSkipVerify = False\<rparr>,
             BufferSize = 1, ClientID = ''a''\<rparr>"

definition ex_link_cfg :: link_ClientConfig where
  "ex_link_cfg = \<lparr>Interval = 10 * Second,
             Certificate = \<lparr>Key = [], Cert = [], Name = [], InsecureSkipVerify = False\<rparr>,
             MaxCacheMessages = 2, MaxMessageSize = 1024, Address = ''b'', Username = [], Password = []\<rparr>"

definition ex_mqtt :: "(mqtt_ClientConfig, unit, nat, unit, nat) mqtt_Client" where
  "ex_mqtt = \<lparr>cfg = ex_cfg, obs = None, cache = \<lparr>buf = [], cap = 1, rcv = NoRecv\<rparr>,
              tomb = \<lparr>dying = False, alive = True, reason = None\<rparr>, tls = None, ids = 1\<rparr>"

definition ex_link :: "(link_ClientConfig, unit, nat, unit) link_Client" where
  "ex_link = \<lparr>cfg = ex_link_cfg, obs = None, cache = \<lparr>buf = [], cap = 2, rcv = NoRecv\<rparr>,
              tomb = \<lparr>dying = False, alive = True, reason = None\<rparr>, conn = ()\<rparr>"

definition ex_delay :: "Backoff \<Rightarrow> duration" where
  "ex_delay b = Min_bf b"

text \<open>
  States of the mqtt Client: as started; with one packet buffered; closed, after \<open>Close\<close>
  has returned; with one packet buffered and the tomb dying.
\<close>

definition ex_start :: "(mqtt_ClientConfig, unit, nat, (unit, nat, unit) mqtt_Client_ext, unit, nat, nat) world" where
  "ex_start = start ex_mqtt"

definition ex_full :: "(mqtt_ClientConfig, unit, nat, (unit, nat, unit) mqtt_Client_ext, unit, nat, nat) world" where
  "ex_full = ex_start\<lparr>client := ex_mqtt\<lparr>cache := \<lparr>buf = [7], cap = 1, rcv = NoRecv\<rparr>\<rparr>\<rparr>"


definition ex_full_dying :: "(mqtt_ClientConfig, unit, nat, (unit, nat, unit) mqtt_Client_ext, unit, nat, nat) world" where
  "ex_full_dying = ex_full\<lparr>client := (client ex_full)\<lparr>tomb := \<lparr>dying = True, alive = True, reason = None\<rparr>\<rparr>\<rparr>"

text \<open>
  An mqtt Client with \<open>BufferSize\<close> 0, as started, and with its session parked on the
  empty queue after a successful connect.
\<close>

definition ex_unbuffered :: "(mqtt_ClientConfig, unit, nat, unit, nat) mqtt_Client" where
  "ex_unbuffered = ex_mqtt\<lparr>cfg := ex_cfg\<lparr>BufferSize := 0\<rparr>, cache := \<lparr>buf = [], cap = 0, rcv = NoRecv\<rparr>\<rparr>"

definition ex_rendezvous :: "(mqtt_ClientConfig, unit, nat, (unit, nat, unit) mqtt_Client_ext, unit, nat, nat) world" where
  "ex_rendezvous = start ex_unbuffered"

definition ex_parked :: "(mqtt_ClientConfig, unit, nat, (unit, nat, unit) mqtt_Client_ext, unit, nat, nat) world" where
  "ex_parked =
     ex_rendezvous\<lparr>client := ex_unbuffered\<lparr>cache := \<lparr>buf = [], cap = 0, rcv = Parked\<rparr>\<rparr>,
                   loc := Sending,
                   vars := (vars ex_rendezvous)\<lparr>stream := Some (), nxt := Some Second,
                             bf := (bf (vars ex_rendezvous))\<lparr>attempt := 0\<rparr>\<rparr>\<rparr>"

text \<open>
  The mqtt Client after three failed connects and one \<open>Send\<close>, and after the connect
  that follows has succeeded.
\<close>

definition ex_retrying :: "(mqtt_ClientConfig, unit, nat, (unit, nat, unit) mqtt_Client_ext, unit, nat, nat) world" where
  "ex_retrying =
     ex_full\<lparr>vars := (vars ex_full)\<lparr>nxt := Some (2 + Second), timer := Second - 1,
                       bf := (bf (vars ex_full))\<lparr>attempt := 3\<rparr>\<rparr>\<rparr>"

definition ex_connected :: "(mqtt_ClientConfig, unit, nat, (unit, nat, unit) mqtt_Client_ext, unit, nat, nat) world" where
  "ex_connected =
     ex_retrying\<lparr>loc := Sending,
                 vars := (vars ex_retrying)\<lparr>stream := Some (), nxt := Some (3 + Second),
                           bf := (bf (vars ex_retrying))\<lparr>attempt := 0\<rparr>\<rparr>\<rparr>"

text \<open>
  A configuration that names a minimum of two seconds and a factor of 2; an mqtt Client
  with an Observer, as started and after a connect that failed with "refused".
\<close>

definition ex_spec_cfg :: spec_ClientConfig where
  "ex_spec_cfg = \<lparr>Interval = 10 * Second,
             Certificate = \<lparr>Key = [], Cert = [], Name = [], InsecureSkipVerify = False\<rparr>,
             BufferSize = 1, ClientID = ''a'', Minimum = 2 * Second, Growth = 2\<rparr>"




text \<open>
  The mqtt Client with a session that has pulled 7 from the queue and is writing it;
  after that write has failed; and after a \<open>Send\<close> of 8, a failed connect, a successful
  connect, the write of 7 and the pull of 8.
\<close>

definition ex_writing :: "(mqtt_ClientConfig, unit, nat, (unit, nat, unit) mqtt_Client_ext, unit, nat, nat) world" where
  "ex_writing =
     ex_start\<lparr>loc := Sending, inflight := Some 7, pulled := [7],
              vars := (vars ex_start)\<lparr>stream := Some (), nxt := Some (0 + Second)\<rparr>\<rparr>"

definition ex_carrying :: "(mqtt_ClientConfig, unit, nat, (unit, nat, unit) mqtt_Client_ext, unit, nat, nat) world" where
  "ex_carrying =
     ex_writing\<lparr>loc := Looping, inflight := None,
                vars := (vars ex_writing)\<lparr>curr := Some 7\<rparr>\<rparr>"

definition ex_delivered :: "(mqtt_ClientConfig, unit, nat, (unit, nat, unit) mqtt_Client_ext, unit, nat, nat) world" where
  "ex_delivered =
     ex_carrying\<lparr>loc := Sending, inflight := Some 8, pulled := [7, 8], wire := [7],
                 vars := (vars ex_carrying)\<lparr>stream := Some (), nxt := Some (3 + Second), timer := Second - 1,
                           bf := (bf (vars ex_carrying))\<lparr>attempt := 0\<rparr>\<rparr>,
                 effects := [Stream_close ()]\<rparr>"

section \<open>Basic facts\<close>

subsection \<open>The invariant holds in every state the system reaches\<close>

lemma inv_start: "fresh c \<Longrightarrow> inv (start c)"
  by (simp add: fresh_def inv_def start_def Go_def Tomb_zero_def)

lemma select_simps [simp]:
  "select [] = []"
  "select (None # cs) = select cs"
  "select (Some x # cs) = x # select cs"
  by (simp_all add: select_def)

lemma Send_cases:
  "Send c m =
     (case chan_send (cache c) m of
        None \<Rightarrow> (if dying (tomb c) then [(Some ErrClientAlreadyClosed, c)] else [])
      | Some ch \<Rightarrow> (None, c\<lparr>cache := ch\<rparr>)
                   # (if dying (tomb c) then [(Some ErrClientAlreadyClosed, c)] else []))"
  by (simp add: Send_def split: option.splits)

lemma SendContext_cases:
  "SendContext c ctx m =
     (case chan_send (cache c) m of None \<Rightarrow> [] | Some ch \<Rightarrow> [(None, c\<lparr>cache := ch\<rparr>)])
     @ (case ctx of None \<Rightarrow> [] | Some e \<Rightarrow> [(Some e, c)])
     @ (if dying (tomb c) then [(Some ErrClientAlreadyClosed, c)] else [])"
  by (simp add: SendContext_def split: option.splits)

lemma Send_outcome:
  "(e, c') \<in> set (Send c m) \<Longrightarrow>
     c' = c \<or> (chan_send (cache c) m = Some (cache c') \<and> c' = c\<lparr>cache := cache c'\<rparr>)"
  by (cases "chan_send (cache c) m") (auto simp: Send_cases split: if_splits)

lemma SendContext_outcome:
  "(e, c') \<in> set (SendContext c ctx m) \<Longrightarrow>
     c' = c \<or> (chan_send (cache c) m = Some (cache c') \<and> c' = c\<lparr>cache := cache c'\<rparr>)"
  by (cases "chan_send (cache c) m") (auto simp: SendContext_cases split: if_splits option.splits)

lemma inv_chan_send:
  assumes "inv w" "chan_send (cache (client w)) m = Some ch"
  shows "inv (w\<lparr>client := (client w)\<lparr>cache := ch\<rparr>\<rparr>)"
  using assms by (auto simp: inv_def chan_send_def split: if_splits)

lemma inv_Send:
  assumes "inv w" "n < length (Send (client w) m)"
  shows "inv (w\<lparr>client := snd (Send (client w) m ! n)\<rparr>)"
proof -
  have "(fst (Send (client w) m ! n), snd (Send (client w) m ! n)) \<in> set (Send (client w) m)"
    using assms(2) by simp
  from Send_outcome [OF this] show ?thesis
    using assms(1) inv_chan_send [OF assms(1)] by (metis world.surjective world.update_convs(1))
qed

lemma inv_SendContext:
  assumes "inv w" "n < length (SendContext (client w) ctx m)"
  shows "inv (w\<lparr>client := snd (SendContext (client w) ctx m ! n)\<rparr>)"
proof -
  have "(fst (SendContext (client w) ctx m ! n), snd (SendContext (client w) ctx m ! n))
          \<in> set (SendContext (client w) ctx m)"
    using assms(2) by simp
  from SendContext_outcome [OF this] show ?thesis
    using assms(1) inv_chan_send [OF assms(1)] by (metis world.surjective world.update_convs(1))
qed

lemma inv_Kill: "inv w \<Longrightarrow> inv (w\<lparr>client := (client w)\<lparr>tomb := Kill (tomb (client w)) e\<rparr>\<rparr>)"
  by (simp add: inv_def Kill_def)

lemma connecting_iter_control:
  "connecting_iter fa rep t (l, tr) = (k, l', tr') \<Longrightarrow>
     (k = Return_nil \<longleftrightarrow> (\<exists>n. t = Dying_fired n))
     \<and> (k = Continue \<longleftrightarrow> (\<exists>n n' e. t = Timer_fired n n' (Inl e)))
     \<and> (k = Connected \<longleftrightarrow> (\<exists>n n' s. t = Timer_fired n n' (Inr s)))"
  by (auto simp: connecting_iter_def Let_def Duration_def split: turn.splits option.splits sum.splits prod.splits)

lemma inv_worker_pass: "inv w \<Longrightarrow> worker_pass fa rep t w = Some w' \<Longrightarrow> inv w'"
  by (auto simp: worker_pass_def inv_def Done_def Kill_def split: if_splits prod.splits control.splits turn.splits
      dest: connecting_iter_control)

lemma inv_pull: "inv w \<Longrightarrow> sending_pull w = Some w' \<Longrightarrow> inv w'"
  by (auto simp: sending_pull_def inv_def chan_recv_def split: if_splits option.splits receiver.splits list.splits)

lemma inv_park: "inv w \<Longrightarrow> sending_park w = Some w' \<Longrightarrow> inv w'"
  by (auto simp: sending_park_def inv_def chan_recv_def split: if_splits option.splits receiver.splits list.splits)

lemma inv_return: "inv w \<Longrightarrow> loc w = Sending \<Longrightarrow> inv (sending_return w)"
  by (auto simp: sending_return_def inv_def)

lemma inv_write: "inv w \<Longrightarrow> sending_write ok w = Some w' \<Longrightarrow> inv w'"
  by (auto simp: sending_write_def inv_return split: if_splits option.splits) (auto simp: inv_def)

lemma inv_finish: "inv w \<Longrightarrow> sending_finish w = Some w' \<Longrightarrow> inv w'"
  by (auto simp: sending_finish_def inv_return split: if_splits)

lemma inv_step: "inv w \<Longrightarrow> step fa rep a w = Some w' \<Longrightarrow> inv w'"
  by (cases a)
    (auto simp: step_def Close_kill_def Close_wait_def inv_Send inv_SendContext inv_Kill
      intro: inv_worker_pass inv_pull inv_park inv_write inv_finish split: if_splits option.splits)

lemma inv_run: "inv w \<Longrightarrow> run fa rep as w = Some w' \<Longrightarrow> inv w'"
  by (induction as arbitrary: w) (auto split: option.splits dest: inv_step)

subsection \<open>Capacity and construction\<close>

lemma chan_send_cap: "chan_send ch m = Some ch' \<Longrightarrow> cap ch' = cap ch"
  by (auto simp: chan_send_def split: if_splits)

lemma Send_cap: "n < length (Send c m) \<Longrightarrow> cap (cache (snd (Send c m ! n))) = cap (cache c)"
  using Send_outcome [of "fst (Send c m ! n)" "snd (Send c m ! n)" c m] chan_send_cap
  by fastforce

lemma SendContext_cap:
  "n < length (SendContext c ctx m) \<Longrightarrow> cap (cache (snd (SendContext c ctx m ! n))) = cap (cache c)"
  using SendContext_outcome [of "fst (SendContext c ctx m ! n)" "snd (SendContext c ctx m ! n)" c ctx m]
    chan_send_cap
  by fastforce

lemma cap_step: "step fa rep a w = Some w' \<Longrightarrow> cap (cache (client w')) = cap (cache (client w))"
  by (cases a)
    (auto simp: step_def Close_kill_def Close_wait_def Send_cap SendContext_cap worker_pass_def sending_pull_def sending_park_def
      sending_write_def sending_finish_def sending_return_def chan_recv_def
      split: if_splits option.splits prod.splits control.splits receiver.splits list.splits)

lemma cap_run: "run fa rep as w = Some w' \<Longrightarrow> cap (cache (client w')) = cap (cache (client w))"
  by (induction as arbitrary: w) (auto split: option.splits dest: cap_step)

lemma mqtt_NewClient_fresh:
  "mqtt_NewClient tlsf ctr cc ob = Inr c \<Longrightarrow> fresh c \<and> cap (cache c) = nat (BufferSize cc) \<and> cfg c = cc \<and> obs c = ob"
  by (auto simp: mqtt_NewClient_def make_chan_def fresh_def split: sum.splits if_splits option.splits)

lemma link_NewClient_fresh:
  "link_NewClient dial cc ob = Inr c \<Longrightarrow> fresh c \<and> cap (cache c) = nat (MaxCacheMessages cc) \<and> cfg c = cc \<and> obs c = ob"
  by (auto simp: link_NewClient_def make_chan_def fresh_def split: sum.splits if_splits option.splits)

subsection \<open>After the worker has returned\<close>





subsection \<open>The attempt count under the steps\<close>

lemma worker_pass_attempt:
  "worker_pass fa rep t w = Some w' \<Longrightarrow>
     attempt (bf (vars w')) =
       (case t of Dying_fired _ \<Rightarrow> attempt (bf (vars w))
        | Timer_fired _ _ (Inl _) \<Rightarrow> attempt (bf (vars w)) + 1
        | Timer_fired _ _ (Inr _) \<Rightarrow> 0)"
  by (auto simp: worker_pass_def connecting_iter_def Let_def Duration_def Reset_def
      split: if_splits turn.splits option.splits sum.splits prod.splits)

lemma step_bf_other:
  "step fa rep a w = Some w' \<Longrightarrow> (\<forall>t. a \<noteq> Pass t) \<Longrightarrow> bf (vars w') = bf (vars w)"
  by (cases a)
    (auto simp: step_def Close_kill_def Close_wait_def sending_pull_def sending_park_def sending_write_def
      sending_finish_def sending_return_def split: if_splits option.splits prod.splits)

lemma step_attempt:
  assumes "step fa rep a w = Some w'"
  shows "Attempt (bf (vars w')) =
           (if is_connected a then 0
            else if is_failed a then Attempt (bf (vars w)) + 1 else Attempt (bf (vars w)))"
proof (cases "\<exists>t. a = Pass t")
  case True
  then obtain t where "a = Pass t" by blast
  then show ?thesis
    using assms worker_pass_attempt [of fa rep t w w']
    by (auto simp: step_def Close_kill_def Close_wait_def Attempt_def is_failed_def is_connected_def split: turn.splits sum.splits)
next
  case False
  then show ?thesis
    using step_bf_other [OF assms] by (cases a) (auto simp: Attempt_def is_failed_def is_connected_def)
qed

lemma run_attempt:
  "run fa rep as w = Some w' \<Longrightarrow> \<not> list_ex is_connected as \<Longrightarrow>
     Attempt (bf (vars w')) = Attempt (bf (vars w)) + length (filter is_failed as)"
proof (induction as arbitrary: w)
  case Nil
  then show ?case by simp
next
  case (Cons a as)
  from Cons.prems(1) obtain v where v: "step fa rep a w = Some v" "run fa rep as v = Some w'"
    by (auto split: option.splits)
  have "Attempt (bf (vars w')) = Attempt (bf (vars v)) + length (filter is_failed as)"
    using Cons.IH [OF v(2)] Cons.prems(2) by simp
  then show ?case
    using step_attempt [OF v(1)] Cons.prems(2) by simp
qed

subsection \<open>What the steps leave alone\<close>

lemma Send_fields:
  "n < length (Send c m) \<Longrightarrow>
     tomb (snd (Send c m ! n)) = tomb c \<and> cfg (snd (Send c m ! n)) = cfg c
     \<and> obs (snd (Send c m ! n)) = obs c"
  by (cases "chan_send (cache c) m"; cases n) (auto simp: Send_cases split: if_splits)

lemma SendContext_fields:
  "n < length (SendContext c ctx m) \<Longrightarrow>
     tomb (snd (SendContext c ctx m ! n)) = tomb c \<and> cfg (snd (SendContext c ctx m ! n)) = cfg c
     \<and> obs (snd (SendContext c ctx m ! n)) = obs c"
proof -
  assume "n < length (SendContext c ctx m)"
  then have "(fst (SendContext c ctx m ! n), snd (SendContext c ctx m ! n)) \<in> set (SendContext c ctx m)"
    by simp
  from SendContext_outcome [OF this] show ?thesis
    by (metis Client.select_convs(1,2,4) Client.surjective Client.update_convs(3))
qed

lemma worker_pass_client:
  "worker_pass fa rep t w = Some w' \<Longrightarrow>
     cfg (client w') = cfg (client w) \<and> obs (client w') = obs (client w)
     \<and> cache (client w') = cache (client w)
     \<and> tomb (client w') = (case t of Dying_fired _ \<Rightarrow> Done (tomb (client w)) None
                             | Timer_fired _ _ _ \<Rightarrow> tomb (client w))
     \<and> (case t of Dying_fired _ \<Rightarrow> dying (tomb (client w)) | Timer_fired _ _ _ \<Rightarrow> True)"
proof -
  assume a: "worker_pass fa rep t w = Some w'"
  obtain k l tr where c: "connecting_iter fa (rep (client w)) t (vars w, effects w) = (k, l, tr)"
    using prod_cases3 by blast
  from connecting_iter_control [OF c] a c show ?thesis
    by (cases k; cases t) (auto simp: worker_pass_def split: if_splits)
qed

lemma sending_pull_client:
  "sending_pull w = Some w' \<Longrightarrow>
     cfg (client w') = cfg (client w) \<and> obs (client w') = obs (client w)
     \<and> tomb (client w') = tomb (client w) \<and> bf (vars w') = bf (vars w)"
  by (auto simp: sending_pull_def split: if_splits option.splits)

lemma sending_park_client:
  "sending_park w = Some w' \<Longrightarrow>
     cfg (client w') = cfg (client w) \<and> obs (client w') = obs (client w)
     \<and> tomb (client w') = tomb (client w) \<and> bf (vars w') = bf (vars w)"
  by (auto simp: sending_park_def split: if_splits option.splits)

lemma sending_write_client:
  "sending_write ok w = Some w' \<Longrightarrow>
     cfg (client w') = cfg (client w) \<and> obs (client w') = obs (client w)
     \<and> tomb (client w') = tomb (client w) \<and> bf (vars w') = bf (vars w)"
  by (auto simp: sending_write_def sending_return_def split: if_splits option.splits)

lemma sending_finish_client:
  "sending_finish w = Some w' \<Longrightarrow>
     cfg (client w') = cfg (client w) \<and> obs (client w') = obs (client w)
     \<and> tomb (client w') = tomb (client w) \<and> bf (vars w') = bf (vars w)"
  by (auto simp: sending_finish_def sending_return_def split: if_splits option.splits)



subsection \<open>Passes of the worker\<close>




subsection \<open>The parameters of the backoff under the steps\<close>

lemma worker_pass_bf_params:
  "worker_pass fa rep t w = Some w' \<Longrightarrow>
     Min_bf (bf (vars w')) = Min_bf (bf (vars w)) \<and> Max_bf (bf (vars w')) = Max_bf (bf (vars w))
     \<and> Factor (bf (vars w')) = Factor (bf (vars w))"
  by (cases t)
    (auto simp: worker_pass_def connecting_iter_def Let_def Duration_def Reset_def
      split: if_splits option.splits sum.splits)

lemma step_bf_params:
  "step fa rep a w = Some w' \<Longrightarrow>
     Min_bf (bf (vars w')) = Min_bf (bf (vars w)) \<and> Max_bf (bf (vars w')) = Max_bf (bf (vars w))
     \<and> Factor (bf (vars w')) = Factor (bf (vars w)) \<and> cfg (client w') = cfg (client w)"
proof (cases a)
  case (Pass t)
  assume "step fa rep a w = Some w'"
  with Pass show ?thesis
    using worker_pass_client [of fa rep t w w'] worker_pass_bf_params [of fa rep t w w']
    by (simp add: step_def Close_kill_def Close_wait_def)
qed (auto simp: step_def Close_kill_def Close_wait_def Send_fields SendContext_fields Kill_def
      dest: sending_pull_client sending_park_client sending_write_client sending_finish_client
      split: if_splits option.splits)

lemma run_bf_params:
  "run fa rep as w = Some w' \<Longrightarrow>
     Min_bf (bf (vars w')) = Min_bf (bf (vars w)) \<and> Max_bf (bf (vars w')) = Max_bf (bf (vars w))
     \<and> Factor (bf (vars w')) = Factor (bf (vars w)) \<and> cfg (client w') = cfg (client w)"
proof (induction as arbitrary: w)
  case Nil
  then show ?case by simp
next
  case (Cons a as)
  from Cons.prems obtain v where v: "step fa rep a w = Some v" "run fa rep as v = Some w'"
    by (auto split: option.splits)
  show ?case
    using Cons.IH [OF v(2)] step_bf_params [OF v(1)] by simp
qed

subsection \<open>The message the worker holds\<close>

lemma connecting_iter_curr:
  "connecting_iter fa rep t (l, tr) = (k, l', tr') \<Longrightarrow> curr l' = curr l"
  by (cases t)
    (auto simp: connecting_iter_def Let_def Duration_def split: option.splits sum.splits)

lemma worker_pass_pending:
  assumes "worker_pass fa rep t w = Some w'"
  shows "wire w' = wire w \<and> pulled w' = pulled w \<and> pending w' = pending w"
proof -
  obtain k l tr where c: "connecting_iter fa (rep (client w)) t (vars w, effects w) = (k, l, tr)"
    using prod_cases3 by blast
  from connecting_iter_curr [OF c] assms c show ?thesis
    by (cases k) (auto simp: worker_pass_def pending_def split: if_splits)
qed

lemma carried_step:
  assumes "step fa rep a w = Some w'"
    and "wire w = W @ ws" and "pulled w = Pd @ ps"
    and "m # ps = ws @ (case pending w of None \<Rightarrow> [] | Some x \<Rightarrow> [x])"
  shows "\<exists>ws' ps'. wire w' = W @ ws' \<and> pulled w' = Pd @ ps'
           \<and> m # ps' = ws' @ (case pending w' of None \<Rightarrow> [] | Some x \<Rightarrow> [x])"
proof (cases a)
  case (Pass t)
  then show ?thesis
    using assms worker_pass_pending [of fa rep t w w'] by (auto simp: step_def Close_kill_def Close_wait_def)
next
  case Pull
  then show ?thesis
    using assms
    by (auto simp: step_def Close_kill_def Close_wait_def sending_pull_def pending_def split: if_splits option.splits)
next
  case Park
  then show ?thesis
    using assms
    by (auto simp: step_def Close_kill_def Close_wait_def sending_park_def pending_def split: if_splits option.splits)
next
  case (Write ok)
  then show ?thesis
    using assms
    by (auto simp: step_def Close_kill_def Close_wait_def sending_write_def sending_return_def pending_def
        split: if_splits option.splits)
next
  case Finish
  then show ?thesis
    using assms
    by (auto simp: step_def Close_kill_def Close_wait_def sending_finish_def sending_return_def pending_def
        split: if_splits option.splits)
qed (use assms in \<open>auto simp: step_def Close_kill_def Close_wait_def pending_def split: if_splits option.splits\<close>)

lemma carried_run:
  assumes "run fa rep as w = Some w'"
    and "wire w = W @ ws" and "pulled w = Pd @ ps"
    and "m # ps = ws @ (case pending w of None \<Rightarrow> [] | Some x \<Rightarrow> [x])"
  shows "\<exists>ws' ps'. wire w' = W @ ws' \<and> pulled w' = Pd @ ps'
           \<and> m # ps' = ws' @ (case pending w' of None \<Rightarrow> [] | Some x \<Rightarrow> [x])"
  using assms
proof (induction as arbitrary: w ws ps)
  case Nil
  then show ?case by auto
next
  case (Cons a as)
  from Cons.prems(1) obtain v where v: "step fa rep a w = Some v" "run fa rep as v = Some w'"
    by (auto split: option.splits)
  from carried_step [OF v(1) Cons.prems(2,3,4)]
  obtain ws' ps' where "wire v = W @ ws'" "pulled v = Pd @ ps'"
    "m # ps' = ws' @ (case pending v of None \<Rightarrow> [] | Some x \<Rightarrow> [x])"
    by blast
  then show ?case
    using Cons.IH [OF v(2)] by blast
qed

section \<open>Observer dispatch is nil-safe\<close>

text \<open>
  C10. When the Observer is nil, \<open>onPublish\<close> and \<open>onPuback\<close> (mqtt), \<open>onMsg\<close> and
  \<open>onAck\<close> (link) return nil and leave the trace as it is; when the Observer is nil or the
  error is nil, \<open>onError\<close> and \<open>onErr\<close> leave the trace as it is: no callback is invoked and
  nothing is logged.
\<close>

theorem observer_helpers_nil_safe:
  "(obs c1 = None \<longrightarrow> onPublish c1 p tr1 = (None, tr1) \<and> onPuback c1 a tr1 = (None, tr1))
   \<and> (obs c2 = None \<longrightarrow> onMsg c2 m tr2 = (None, tr2) \<and> onAck c2 m' tr2 = (None, tr2))
   \<and> (obs c3 = None \<or> err = None \<longrightarrow> onError c3 msg err tr3 = tr3 \<and> onErr c3 msg err tr3 = tr3)"
  by (auto simp: onPublish_def onPuback_def onMsg_def onAck_def onError_def onErr_def)

theorem observer_helpers_nil_safe_witness:
  "obs (silent :: (unit, (nat, nat) mqtt_Observer, nat) Client) = None
   \<and> onPublish (silent :: (unit, (nat, nat) mqtt_Observer, nat) Client) 1 ([] :: (nat, nat, unit) effect list) = (None, [])
   \<and> onPuback (silent :: (unit, (nat, nat) mqtt_Observer, nat) Client) 2 ([] :: (nat, nat, unit) effect list) = (None, [])
   \<and> obs (silent :: (unit, nat link_Observer, nat) Client) = None
   \<and> onMsg (silent :: (unit, nat link_Observer, nat) Client) 3 ([] :: (nat, nat, unit) effect list) = (None, [])
   \<and> onAck (silent :: (unit, nat link_Observer, nat) Client) 4 ([] :: (nat, nat, unit) effect list) = (None, [])
   \<and> (obs (watched :: (unit, (nat, nat) mqtt_Observer, nat) Client) = None \<or> (None :: error option) = None)
   \<and> onError (watched :: (unit, (nat, nat) mqtt_Observer, nat) Client) ''failed to connect'' None
        ([] :: (nat, nat, unit) effect list) = []
   \<and> onErr (watched :: (unit, (nat, nat) mqtt_Observer, nat) Client) ''failed to connect'' None
        ([] :: (nat, nat, unit) effect list) = []"
  using observer_helpers_nil_safe
    [of "silent :: (unit, (nat, nat) mqtt_Observer, nat) Client" 1 "[] :: (nat, nat, unit) effect list" 2
        "silent :: (unit, nat link_Observer, nat) Client" 3 "[] :: (nat, nat, unit) effect list" 4
        "watched :: (unit, (nat, nat) mqtt_Observer, nat) Client" None "''failed to connect''"
        "[] :: (nat, nat, unit) effect list"]
  by (simp add: silent_def)

section \<open>Publish\<close>

text \<open>
  C9. \<open>Publish(qos, topic, payload, pid, retain, dup)\<close> passes one publish packet to \<open>Send\<close>.
  If \<open>qos\<close> is non-zero and \<open>pid\<close> is zero the packet carries the ID that \<open>NextID\<close> returns
  for the client's counter, and the counter is advanced; in every other case it carries
  \<open>pid\<close> and the counter is left alone. \<open>qos\<close>, \<open>topic\<close>, \<open>payload\<close>, \<open>retain\<close> and \<open>dup\<close> are
  copied unchanged. Every outcome of the call that returns nil has passed exactly this
  packet to the queue.
\<close>

theorem Publish_packet:
  "Publish NextID c qos topic payload pid retain dup =
     Send (if qos \<noteq> 0 \<and> pid = 0 then c\<lparr>ids := snd (NextID (ids c))\<rparr> else c)
       (PublishPkt \<lparr>ID = (if qos \<noteq> 0 \<and> pid = 0 then fst (NextID (ids c)) else pid), Dup = dup,
                    Message = \<lparr>QOS = qos, Topic = topic, Payload = payload, Retain = retain\<rparr>\<rparr>)
   \<and> (\<forall>(e, c') \<in> set (Publish NextID c qos topic payload pid retain dup).
         ids c' = (if qos \<noteq> 0 \<and> pid = 0 then snd (NextID (ids c)) else ids c)
         \<and> (e = None \<longrightarrow>
              chan_send (cache c)
                (PublishPkt \<lparr>ID = (if qos \<noteq> 0 \<and> pid = 0 then fst (NextID (ids c)) else pid), Dup = dup,
                    Message = \<lparr>QOS = qos, Topic = topic, Payload = payload, Retain = retain\<rparr>\<rparr>)
              = Some (cache c')))"
  by (auto simp: Publish_def NewPublish_def Let_def Send_def select_def
        ErrClientAlreadyClosed_def split: option.splits if_splits)

theorem Publish_packet_witness:
  "map (\<lambda>(e, c'). (e, buf (cache c'), ids c')) (Publish count numbered 1 ''t'' [7] 0 True False)
     = [(None, [PublishPkt \<lparr>ID = 5, Dup = False,
                  Message = \<lparr>QOS = 1, Topic = ''t'', Payload = [7], Retain = True\<rparr>\<rparr>], 6)]
   \<and> map (\<lambda>(e, c'). (e, buf (cache c'), ids c')) (Publish count numbered 0 ''t'' [7] 0 True False)
     = [(None, [PublishPkt \<lparr>ID = 0, Dup = False,
                  Message = \<lparr>QOS = 0, Topic = ''t'', Payload = [7], Retain = True\<rparr>\<rparr>], 5)]
   \<and> map (\<lambda>(e, c'). (e, buf (cache c'), ids c')) (Publish count numbered 1 ''t'' [7] 9 False True)
     = [(None, [PublishPkt \<lparr>ID = 9, Dup = True,
                  Message = \<lparr>QOS = 1, Topic = ''t'', Payload = [7], Retain = False\<rparr>\<rparr>], 5)]"
  using Publish_packet [of count numbered 1 "''t''" "[7]" 0 True False]
    Publish_packet [of count numbered 0 "''t''" "[7]" 0 True False]
    Publish_packet [of count numbered 1 "''t''" "[7]" 9 False True]
  by (simp add: numbered_def count_def Send_def select_def chan_send_def
        Go_def Tomb_zero_def)

section \<open>The queue stays within its capacity\<close>

text \<open>
  C6. \<open>NewClient\<close> makes the queue with the capacity of the configuration (\<open>BufferSize\<close> in
  mqtt, \<open>MaxCacheMessages\<close> in link) and nothing buffered. In every state the system
  reaches from there the capacity is the same and the number of buffered messages is at
  most the capacity; every outcome of a \<open>Send\<close> keeps both. A \<open>Send\<close> on a full queue adds
  nothing to the buffer: it blocks, or fails with the closed error when the tomb is dying,
  or passes the message directly to a parked receiver.
\<close>

theorem queue_within_capacity:
  "(mqtt_NewClient tlsf ctr mcc mob = Inr mc \<longrightarrow> fresh mc \<and> cap (cache mc) = nat (BufferSize mcc))
   \<and> (link_NewClient dial lcc lob = Inr lc \<longrightarrow> fresh lc \<and> cap (cache lc) = nat (MaxCacheMessages lcc))
   \<and> (fresh c \<and> run fa rep as (start c) = Some w \<longrightarrow>
        cap (cache (client w)) = cap (cache c)
        \<and> length (buf (cache (client w))) \<le> cap (cache (client w))
        \<and> (\<forall>(e, c') \<in> set (Send (client w) m).
              cap (cache c') = cap (cache c) \<and> length (buf (cache c')) \<le> cap (cache c'))
        \<and> (length (buf (cache (client w))) = cap (cache (client w)) \<longrightarrow>
              Send (client w) m =
                (if rcv (cache (client w)) = Parked
                 then [(None, (client w)\<lparr>cache := (cache (client w))\<lparr>rcv := Handed m\<rparr>\<rparr>)] else [])
                @ (if dying (tomb (client w)) then [(Some ErrClientAlreadyClosed, client w)] else [])))"
proof (intro conjI impI)
  assume "mqtt_NewClient tlsf ctr mcc mob = Inr mc"
  then show "fresh mc" "cap (cache mc) = nat (BufferSize mcc)"
    by (simp_all add: mqtt_NewClient_fresh)
next
  assume "link_NewClient dial lcc lob = Inr lc"
  then show "fresh lc" "cap (cache lc) = nat (MaxCacheMessages lcc)"
    by (simp_all add: link_NewClient_fresh)
next
  assume a: "fresh c \<and> run fa rep as (start c) = Some w"
  then have i: "inv w"
    using inv_run inv_start by blast
  from a have c: "cap (cache (client w)) = cap (cache c)"
    using cap_run [of fa rep as "start c" w] by (simp add: start_def)
  show "cap (cache (client w)) = cap (cache c)" by (rule c)
  show "length (buf (cache (client w))) \<le> cap (cache (client w))"
    using i by (simp add: inv_def)
  show "\<forall>(e, c') \<in> set (Send (client w) m).
          cap (cache c') = cap (cache c) \<and> length (buf (cache c')) \<le> cap (cache c')"
    using i c
    by (auto simp: Send_cases chan_send_def inv_def split: option.splits if_splits)
  show "Send (client w) m =
          (if rcv (cache (client w)) = Parked
           then [(None, (client w)\<lparr>cache := (cache (client w))\<lparr>rcv := Handed m\<rparr>\<rparr>)] else [])
          @ (if dying (tomb (client w)) then [(Some ErrClientAlreadyClosed, client w)] else [])"
    if "length (buf (cache (client w))) = cap (cache (client w))"
    using that by (simp add: Send_cases chan_send_def)
qed


theorem queue_within_capacity_witness:
  "mqtt_NewClient (\<lambda>_. Inr None) 1 ex_cfg None = Inr ex_mqtt
   \<and> link_NewClient (\<lambda>_. Inr ()) ex_link_cfg None = Inr ex_link
   \<and> fresh ex_mqtt \<and> fresh ex_link
   \<and> cap (cache ex_mqtt) = nat (BufferSize ex_cfg) \<and> cap (cache ex_link) = nat (MaxCacheMessages ex_link_cfg)
   \<and> run ex_delay onError [Call_Send 7 0] ex_start = Some ex_full
   \<and> length (buf (cache (client ex_full))) = cap (cache (client ex_full))
   \<and> Send (client ex_full) 8 = []"
  using queue_within_capacity
    [of "\<lambda>_. Inr None" 1 ex_cfg None ex_mqtt "\<lambda>_. Inr ()" ex_link_cfg None ex_link
        ex_mqtt ex_delay onError "[Call_Send 7 0]" ex_full 8]
  by (simp add: mqtt_NewClient_def link_NewClient_def make_chan_def ex_cfg_def ex_link_cfg_def
      ex_mqtt_def ex_link_def ex_start_def ex_full_def fresh_def Go_def Tomb_zero_def start_def step_def Close_kill_def Close_wait_def
      Send_cases chan_send_def)

section \<open>Send after Close\<close>




section \<open>SendContext with a context that is done\<close>

text \<open>
  C5, as amended. When the context is already done, the queue is full and no session is
  parked receiving from it (which is so whenever the capacity is positive), \<open>SendContext\<close>
  does not block and does not enqueue: it returns the context's error, or, when the tomb
  is dying, either that error or the closed error.
\<close>

theorem SendContext_done_full:
  assumes "fresh c" and "run fa rep as (start c) = Some w"
    and "cap (cache (client w)) \<le> length (buf (cache (client w)))"
    and "0 < cap (cache (client w)) \<or> rcv (cache (client w)) \<noteq> Parked"
  shows "SendContext (client w) (Some e) m =
           (Some e, client w)
           # (if dying (tomb (client w)) then [(Some ErrClientAlreadyClosed, client w)] else [])"
proof -
  have i: "inv w"
    using assms(1,2) inv_run inv_start by blast
  have "rcv (cache (client w)) \<noteq> Parked"
    using i assms(3,4) by (auto simp: inv_def)
  then show ?thesis
    using assms(3) by (simp add: SendContext_cases chan_send_def)
qed

theorem SendContext_done_full_witness:
  "fresh ex_mqtt
   \<and> run ex_delay onError [Call_Send 7 0] ex_start = Some ex_full
   \<and> cap (cache (client ex_full)) \<le> length (buf (cache (client ex_full)))
   \<and> (0 < cap (cache (client ex_full)) \<or> rcv (cache (client ex_full)) \<noteq> Parked)
   \<and> SendContext (client ex_full) (Some DeadlineExceeded) 8 = [(Some DeadlineExceeded, client ex_full)]"
  using SendContext_done_full [of ex_mqtt ex_delay onError "[Call_Send 7 0]" ex_full DeadlineExceeded 8]
  by (simp add: ex_mqtt_def ex_start_def ex_full_def fresh_def Go_def Tomb_zero_def start_def step_def Close_kill_def Close_wait_def
      Send_cases chan_send_def)

text \<open>
  C5 as stated fails. With one packet buffered, capacity one and the tomb dying, the call
  may return the closed error, which is not the context's. With capacity 0 and the
  session parked on the queue, the call may pass the message on and return nil.
\<close>

theorem SendContext_done_full_counterexample:
  "run ex_delay onError [Call_Send 7 0, Call_Kill] ex_start = Some ex_full_dying
   \<and> cap (cache (client ex_full_dying)) \<le> length (buf (cache (client ex_full_dying)))
   \<and> (Some ErrClientAlreadyClosed, client ex_full_dying)
       \<in> set (SendContext (client ex_full_dying) (Some Canceled) 8)
   \<and> ErrClientAlreadyClosed \<noteq> Canceled
   \<and> run ex_delay onError [Pass (Timer_fired 0 0 (Inr ())), Park] ex_rendezvous = Some ex_parked
   \<and> cap (cache (client ex_parked)) \<le> length (buf (cache (client ex_parked)))
   \<and> (None, (client ex_parked)\<lparr>cache := \<lparr>buf = [], cap = 0, rcv = Handed 8\<rparr>\<rparr>)
       \<in> set (SendContext (client ex_parked) (Some Canceled) 8)"
  by (simp add: ex_mqtt_def ex_start_def ex_full_def ex_full_dying_def ex_rendezvous_def ex_parked_def
      ex_unbuffered_def start_def step_def Close_kill_def Close_wait_def
      Send_cases SendContext_cases chan_send_def chan_recv_def Kill_def ErrClientAlreadyClosed_def
      worker_pass_def connecting_iter_def connecting_init_def Duration_def Reset_def ex_delay_def
      sending_park_def ex_cfg_def)

section \<open>The attempt count of the backoff\<close>

text \<open>
  C3. Over any run of the system without a successful connect the attempt count of the
  backoff grows by the number of failed connects, so it never decreases while connects
  keep failing. In a single step it becomes zero when the step is a connect that
  succeeded, goes up by one when the step is a connect that failed, and stays as it is
  in every other step: it is reset only by the pass in which the connect succeeds.
\<close>

theorem attempt_count:
  "(run fa rep as w = Some w' \<and> \<not> list_ex is_connected as \<longrightarrow>
      Attempt (bf (vars w')) = Attempt (bf (vars w)) + length (filter is_failed as))
   \<and> (step fa rep a u = Some v \<longrightarrow>
        Attempt (bf (vars v)) =
          (if is_connected a then 0
           else if is_failed a then Attempt (bf (vars u)) + 1 else Attempt (bf (vars u))))"
  using run_attempt step_attempt by blast

theorem attempt_count_witness:
  "run ex_delay onError
     [Pass (Timer_fired 0 0 (Inl Canceled)), Call_Send 7 0, Pass (Timer_fired 1 1 (Inl Canceled)),
      Pass (Timer_fired 2 2 (Inl Canceled))] ex_start = Some ex_retrying
   \<and> \<not> list_ex is_connected
        [Pass (Timer_fired 0 0 (Inl Canceled)), Call_Send 7 0, Pass (Timer_fired 1 1 (Inl Canceled)),
         Pass (Timer_fired 2 2 (Inl Canceled)) :: (nat, unit) action]
   \<and> Attempt (bf (vars ex_start)) = 0 \<and> Attempt (bf (vars ex_retrying)) = 3
   \<and> step ex_delay onError (Pass (Timer_fired 3 3 (Inr ()))) ex_retrying = Some ex_connected
   \<and> Attempt (bf (vars ex_connected)) = 0"
  using attempt_count [of ex_delay onError
        "[Pass (Timer_fired 0 0 (Inl Canceled)), Call_Send 7 0, Pass (Timer_fired 1 1 (Inl Canceled)),
          Pass (Timer_fired 2 2 (Inl Canceled))]" ex_start ex_retrying
        "Pass (Timer_fired 3 3 (Inr ()))" ex_retrying ex_connected]
  by (simp add: ex_mqtt_def ex_start_def ex_full_def ex_retrying_def ex_connected_def start_def step_def Close_kill_def Close_wait_def
      Send_cases chan_send_def
      worker_pass_def connecting_iter_def connecting_init_def Duration_def Reset_def Attempt_def
      ex_delay_def onError_def is_failed_def is_connected_def)

section \<open>Failed connects are reported and retried\<close>



section \<open>The parameters of the backoff\<close>

text \<open>
  C8, as amended. Of the backoff's parameters only the maximum is configured: it is the
  configuration's \<open>Interval\<close>. The minimum is one second and the factor 1.6 for every
  configuration, at the start of \<open>connecting\<close> and in every state the system reaches.
\<close>

theorem backoff_parameters:
  "bf (connecting_init cc) = \<lparr>Min_bf = Second, Max_bf = Interval cc, Factor = 8 / 5, attempt = 0\<rparr>
   \<and> (run fa rep as (start c) = Some w \<longrightarrow>
        Min_bf (bf (vars w)) = Second \<and> Max_bf (bf (vars w)) = Interval (cfg (client w))
        \<and> Factor (bf (vars w)) = 8 / 5)"
  using run_bf_params [of fa rep as "start c" w]
  by (auto simp: connecting_init_def start_def)

theorem backoff_parameters_witness:
  "run ex_delay onError
     [Pass (Timer_fired 0 0 (Inl Canceled)), Call_Send 7 0, Pass (Timer_fired 1 1 (Inl Canceled)),
      Pass (Timer_fired 2 2 (Inl Canceled))] ex_start = Some ex_retrying
   \<and> Min_bf (bf (vars ex_retrying)) = 1000000000 \<and> Max_bf (bf (vars ex_retrying)) = 10000000000
   \<and> Factor (bf (vars ex_retrying)) = 8 / 5"
  using backoff_parameters [of ex_cfg ex_delay onError
        "[Pass (Timer_fired 0 0 (Inl Canceled)), Call_Send 7 0, Pass (Timer_fired 1 1 (Inl Canceled)),
          Pass (Timer_fired 2 2 (Inl Canceled))]" ex_mqtt ex_retrying]
  by (simp add: ex_mqtt_def ex_start_def ex_full_def ex_retrying_def start_def step_def Close_kill_def Close_wait_def ex_cfg_def
      Send_cases chan_send_def Second_def
      worker_pass_def connecting_iter_def connecting_init_def Duration_def Reset_def
      ex_delay_def onError_def)

text \<open>
  C8 as stated fails: for a configuration that names a minimum of two seconds and a
  factor of 2 the supervisor's backoff has the minimum one second and the factor 1.6.
\<close>

theorem backoff_parameters_counterexample:
  "Minimum ex_spec_cfg = 2 * Second \<and> Growth ex_spec_cfg = 2
   \<and> Min_bf (bf (connecting_init ex_spec_cfg)) = Second
   \<and> Factor (bf (connecting_init ex_spec_cfg)) = 8 / 5
   \<and> Min_bf (bf (connecting_init ex_spec_cfg)) \<noteq> Minimum ex_spec_cfg
   \<and> Factor (bf (connecting_init ex_spec_cfg)) \<noteq> Growth ex_spec_cfg"
  by (simp add: ex_spec_cfg_def connecting_init_def Second_def)

section \<open>The in-flight message is carried to the next session\<close>

text \<open>
  C4. When a session ends by a failed write or otherwise while the message \<open>m\<close> is in
  flight, \<open>sending\<close> returns \<open>m\<close> and \<open>connecting\<close> keeps it in \<open>curr\<close>. From then on, in
  every state the system reaches, what has been written to the transport since is \<open>m\<close>
  followed by the messages pulled from the queue since, in the order they were pulled,
  except for the one message the worker still holds: \<open>m\<close> is written before any message
  a later session takes from the queue, and as long as \<open>m\<close> is not written nothing is
  taken from the queue.
\<close>

theorem in_flight_message_is_carried:
  assumes "loc w0 = Sending" and "inflight w0 = Some m"
    and "a0 = Write False \<or> a0 = Finish"
    and "step fa rep a0 w0 = Some w1" and "run fa rep as w1 = Some w"
  shows "loc w1 = Looping \<and> curr (vars w1) = Some m
         \<and> (\<exists>ws ps. wire w = wire w0 @ ws \<and> pulled w = pulled w0 @ ps
               \<and> m # ps = ws @ (case pending w of None \<Rightarrow> [] | Some x \<Rightarrow> [x]))"
proof -
  have 1: "loc w1 = Looping \<and> curr (vars w1) = Some m \<and> wire w1 = wire w0 \<and> pulled w1 = pulled w0"
    using assms(1-4)
    by (auto simp: step_def Close_kill_def Close_wait_def sending_write_def sending_finish_def sending_return_def split: if_splits)
  then have "m # [] = [] @ (case pending w1 of None \<Rightarrow> [] | Some x \<Rightarrow> [x])"
    by (simp add: pending_def)
  from carried_run [OF assms(5) _ _ this, of "wire w0" "pulled w0"] 1
  show ?thesis by simp
qed

theorem in_flight_message_is_carried_witness:
  "loc ex_writing = Sending \<and> inflight ex_writing = Some 7
   \<and> step ex_delay onError (Write False) ex_writing = Some ex_carrying
   \<and> run ex_delay onError
        [Call_Send 8 0, Pass (Timer_fired 1 1 (Inl Canceled)), Pass (Timer_fired 2 3 (Inr ())),
         Write True, Pull] ex_carrying = Some ex_delivered
   \<and> curr (vars ex_carrying) = Some 7
   \<and> wire ex_writing = [] \<and> wire ex_delivered = [7]
   \<and> pulled ex_writing = [7] \<and> pulled ex_delivered = [7, 8]
   \<and> pending ex_delivered = Some 8"
  using in_flight_message_is_carried [of ex_writing 7 "Write False" ex_delay onError ex_carrying
      "[Call_Send 8 0, Pass (Timer_fired 1 1 (Inl Canceled)), Pass (Timer_fired 2 3 (Inr ())),
        Write True, Pull]" ex_delivered]
  by (simp add: ex_mqtt_def ex_start_def ex_writing_def ex_carrying_def ex_delivered_def start_def step_def Close_kill_def Close_wait_def
      Send_cases chan_send_def chan_recv_def pending_def
      sending_write_def sending_return_def sending_pull_def
      worker_pass_def connecting_iter_def connecting_init_def Duration_def Reset_def
      ex_delay_def onError_def)

end
